theory Spec2Isabelle
  imports Main "HOL-Library.Sublist"
begin

section \<open>Python strings\<close>

text \<open>
  A Python \<^verbatim>\<open>str\<close> is a sequence of Unicode code points. A code point is a natural
  number below \<open>0x110000\<close>; a string is a list of them. \<open>ustr\<close> reads an ASCII literal.
\<close>

type_synonym codepoint = nat
type_synonym pystr = "codepoint list"

definition ustr :: "string \<Rightarrow> pystr" where
  "ustr cs = map of_char cs"

text \<open>
  The character tables of the interpreter (CPython 3.11, Unicode 14.0.0), as sorted lists
  of inclusive ranges: what \<^verbatim>\<open>\d\<close>, \<^verbatim>\<open>\s\<close> and \<^verbatim>\<open>\w\<close> match in a
  \<^verbatim>\<open>str\<close> pattern. \<^verbatim>\<open>str.strip()\<close> removes the characters of the \<^verbatim>\<open>\s\<close> table.
\<close>

fun in_ranges :: "codepoint \<Rightarrow> (codepoint \<times> codepoint) list \<Rightarrow> bool" where
  "in_ranges c [] = False"
| "in_ranges c ((lo, hi) # rs) =
     (if c < lo then False else if c \<le> hi then True else in_ranges c rs)"

definition digit_ranges :: "(codepoint \<times> codepoint) list" where
  "digit_ranges = [
  (48, 57), (1632, 1641), (1776, 1785), (1984, 1993), (2406, 2415), (2534, 2543), (2662, 2671),
   (2790, 2799), (2918, 2927), (3046, 3055), (3174, 3183), (3302, 3311), (3430, 3439),
   (3558, 3567), (3664, 3673), (3792, 3801), (3872, 3881), (4160, 4169), (4240, 4249),
   (6112, 6121), (6160, 6169), (6470, 6479), (6608, 6617), (6784, 6793), (6800, 6809),
   (6992, 7001), (7088, 7097), (7232, 7241), (7248, 7257), (42528, 42537), (43216, 43225),
   (43264, 43273), (43472, 43481), (43504, 43513), (43600, 43609), (44016, 44025),
   (65296, 65305), (66720, 66729), (68912, 68921), (69734, 69743), (69872, 69881),
   (69942, 69951), (70096, 70105), (70384, 70393), (70736, 70745), (70864, 70873),
   (71248, 71257), (71360, 71369), (71472, 71481), (71904, 71913), (72016, 72025),
   (72784, 72793), (73040, 73049), (73120, 73129), (92768, 92777), (92864, 92873),
   (93008, 93017), (120782, 120831), (123200, 123209), (123632, 123641), (125264, 125273),
   (130032, 130041)]"

definition space_ranges :: "(codepoint \<times> codepoint) list" where
  "space_ranges = [
  (9, 13), (28, 32), (133, 133), (160, 160), (5760, 5760), (8192, 8202), (8232, 8233),
   (8239, 8239), (8287, 8287), (12288, 12288)]"

definition word_ranges :: "(codepoint \<times> codepoint) list" where
  "word_ranges = [
  (48, 57), (65, 90), (95, 95), (97, 122), (170, 170), (178, 179), (181, 181), (185, 186),
   (188, 190), (192, 214), (216, 246), (248, 705), (710, 721), (736, 740), (748, 748),
   (750, 750), (880, 884), (886, 887), (890, 893), (895, 895), (902, 902), (904, 906),
   (908, 908), (910, 929), (931, 1013), (1015, 1153), (1162, 1327), (1329, 1366), (1369, 1369),
   (1376, 1416), (1488, 1514), (1519, 1522), (1568, 1610), (1632, 1641), (1646, 1647),
   (1649, 1747), (1749, 1749), (1765, 1766), (1774, 1788), (1791, 1791), (1808, 1808),
   (1810, 1839), (1869, 1957), (1969, 1969), (1984, 2026), (2036, 2037), (2042, 2042),
   (2048, 2069), (2074, 2074), (2084, 2084), (2088, 2088), (2112, 2136), (2144, 2154),
   (2160, 2183), (2185, 2190), (2208, 2249), (2308, 2361), (2365, 2365), (2384, 2384),
   (2392, 2401), (2406, 2415), (2417, 2432), (2437, 2444), (2447, 2448), (2451, 2472),
   (2474, 2480), (2482, 2482), (2486, 2489), (2493, 2493), (2510, 2510), (2524, 2525),
   (2527, 2529), (2534, 2545), (2548, 2553), (2556, 2556), (2565, 2570), (2575, 2576),
   (2579, 2600), (2602, 2608), (2610, 2611), (2613, 2614), (2616, 2617), (2649, 2652),
   (2654, 2654), (2662, 2671), (2674, 2676), (2693, 2701), (2703, 2705), (2707, 2728),
   (2730, 2736), (2738, 2739), (2741, 2745), (2749, 2749), (2768, 2768), (2784, 2785),
   (2790, 2799), (2809, 2809), (2821, 2828), (2831, 2832), (2835, 2856), (2858, 2864),
   (2866, 2867), (2869, 2873), (2877, 2877), (2908, 2909), (2911, 2913), (2918, 2927),
   (2929, 2935), (2947, 2947), (2949, 2954), (2958, 2960), (2962, 2965), (2969, 2970),
   (2972, 2972), (2974, 2975), (2979, 2980), (2984, 2986), (2990, 3001), (3024, 3024),
   (3046, 3058), (3077, 3084), (3086, 3088), (3090, 3112), (3114, 3129), (3133, 3133),
   (3160, 3162), (3165, 3165), (3168, 3169), (3174, 3183), (3192, 3198), (3200, 3200),
   (3205, 3212), (3214, 3216), (3218, 3240), (3242, 3251), (3253, 3257), (3261, 3261),
   (3293, 3294), (3296, 3297), (3302, 3311), (3313, 3314), (3332, 3340), (3342, 3344),
   (3346, 3386), (3389, 3389), (3406, 3406), (3412, 3414), (3416, 3425), (3430, 3448),
   (3450, 3455), (3461, 3478), (3482, 3505), (3507, 3515), (3517, 3517), (3520, 3526),
   (3558, 3567), (3585, 3632), (3634, 3635), (3648, 3654), (3664, 3673), (3713, 3714),
   (3716, 3716), (3718, 3722), (3724, 3747), (3749, 3749), (3751, 3760), (3762, 3763),
   (3773, 3773), (3776, 3780), (3782, 3782), (3792, 3801), (3804, 3807), (3840, 3840),
   (3872, 3891), (3904, 3911), (3913, 3948), (3976, 3980), (4096, 4138), (4159, 4169),
   (4176, 4181), (4186, 4189), (4193, 4193), (4197, 4198), (4206, 4208), (4213, 4225),
   (4238, 4238), (4240, 4249), (4256, 4293), (4295, 4295), (4301, 4301), (4304, 4346),
   (4348, 4680), (4682, 4685), (4688, 4694), (4696, 4696), (4698, 4701), (4704, 4744),
   (4746, 4749), (4752, 4784), (4786, 4789), (4792, 4798), (4800, 4800), (4802, 4805),
   (4808, 4822), (4824, 4880), (4882, 4885), (4888, 4954), (4969, 4988), (4992, 5007),
   (5024, 5109), (5112, 5117), (5121, 5740), (5743, 5759), (5761, 5786), (5792, 5866),
   (5870, 5880), (5888, 5905), (5919, 5937), (5952, 5969), (5984, 5996), (5998, 6000),
   (6016, 6067), (6103, 6103), (6108, 6108), (6112, 6121), (6128, 6137), (6160, 6169),
   (6176, 6264), (6272, 6276), (6279, 6312), (6314, 6314), (6320, 6389), (6400, 6430),
   (6470, 6509), (6512, 6516), (6528, 6571), (6576, 6601), (6608, 6618), (6656, 6678),
   (6688, 6740), (6784, 6793), (6800, 6809), (6823, 6823), (6917, 6963), (6981, 6988),
   (6992, 7001), (7043, 7072), (7086, 7141), (7168, 7203), (7232, 7241), (7245, 7293),
   (7296, 7304), (7312, 7354), (7357, 7359), (7401, 7404), (7406, 7411), (7413, 7414),
   (7418, 7418), (7424, 7615), (7680, 7957), (7960, 7965), (7968, 8005), (8008, 8013),
   (8016, 8023), (8025, 8025), (8027, 8027), (8029, 8029), (8031, 8061), (8064, 8116),
   (8118, 8124), (8126, 8126), (8130, 8132), (8134, 8140), (8144, 8147), (8150, 8155),
   (8160, 8172), (8178, 8180), (8182, 8188), (8304, 8305), (8308, 8313), (8319, 8329),
   (8336, 8348), (8450, 8450), (8455, 8455), (8458, 8467), (8469, 8469), (8473, 8477),
   (8484, 8484), (8486, 8486), (8488, 8488), (8490, 8493), (8495, 8505), (8508, 8511),
   (8517, 8521), (8526, 8526), (8528, 8585), (9312, 9371), (9450, 9471), (10102, 10131),
   (11264, 11492), (11499, 11502), (11506, 11507), (11517, 11517), (11520, 11557),
   (11559, 11559), (11565, 11565), (11568, 11623), (11631, 11631), (11648, 11670),
   (11680, 11686), (11688, 11694), (11696, 11702), (11704, 11710), (11712, 11718),
   (11720, 11726), (11728, 11734), (11736, 11742), (11823, 11823), (12293, 12295),
   (12321, 12329), (12337, 12341), (12344, 12348), (12353, 12438), (12445, 12447),
   (12449, 12538), (12540, 12543), (12549, 12591), (12593, 12686), (12690, 12693),
   (12704, 12735), (12784, 12799), (12832, 12841), (12872, 12879), (12881, 12895),
   (12928, 12937), (12977, 12991), (13312, 19903), (19968, 42124), (42192, 42237),
   (42240, 42508), (42512, 42539), (42560, 42606), (42623, 42653), (42656, 42735),
   (42775, 42783), (42786, 42888), (42891, 42954), (42960, 42961), (42963, 42963),
   (42965, 42969), (42994, 43009), (43011, 43013), (43015, 43018), (43020, 43042),
   (43056, 43061), (43072, 43123), (43138, 43187), (43216, 43225), (43250, 43255),
   (43259, 43259), (43261, 43262), (43264, 43301), (43312, 43334), (43360, 43388),
   (43396, 43442), (43471, 43481), (43488, 43492), (43494, 43518), (43520, 43560),
   (43584, 43586), (43588, 43595), (43600, 43609), (43616, 43638), (43642, 43642),
   (43646, 43695), (43697, 43697), (43701, 43702), (43705, 43709), (43712, 43712),
   (43714, 43714), (43739, 43741), (43744, 43754), (43762, 43764), (43777, 43782),
   (43785, 43790), (43793, 43798), (43808, 43814), (43816, 43822), (43824, 43866),
   (43868, 43881), (43888, 44002), (44016, 44025), (44032, 55203), (55216, 55238),
   (55243, 55291), (63744, 64109), (64112, 64217), (64256, 64262), (64275, 64279),
   (64285, 64285), (64287, 64296), (64298, 64310), (64312, 64316), (64318, 64318),
   (64320, 64321), (64323, 64324), (64326, 64433), (64467, 64829), (64848, 64911),
   (64914, 64967), (65008, 65019), (65136, 65140), (65142, 65276), (65296, 65305),
   (65313, 65338), (65345, 65370), (65382, 65470), (65474, 65479), (65482, 65487),
   (65490, 65495), (65498, 65500), (65536, 65547), (65549, 65574), (65576, 65594),
   (65596, 65597), (65599, 65613), (65616, 65629), (65664, 65786), (65799, 65843),
   (65856, 65912), (65930, 65931), (66176, 66204), (66208, 66256), (66273, 66299),
   (66304, 66339), (66349, 66378), (66384, 66421), (66432, 66461), (66464, 66499),
   (66504, 66511), (66513, 66517), (66560, 66717), (66720, 66729), (66736, 66771),
   (66776, 66811), (66816, 66855), (66864, 66915), (66928, 66938), (66940, 66954),
   (66956, 66962), (66964, 66965), (66967, 66977), (66979, 66993), (66995, 67001),
   (67003, 67004), (67072, 67382), (67392, 67413), (67424, 67431), (67456, 67461),
   (67463, 67504), (67506, 67514), (67584, 67589), (67592, 67592), (67594, 67637),
   (67639, 67640), (67644, 67644), (67647, 67669), (67672, 67702), (67705, 67742),
   (67751, 67759), (67808, 67826), (67828, 67829), (67835, 67867), (67872, 67897),
   (67968, 68023), (68028, 68047), (68050, 68096), (68112, 68115), (68117, 68119),
   (68121, 68149), (68160, 68168), (68192, 68222), (68224, 68255), (68288, 68295),
   (68297, 68324), (68331, 68335), (68352, 68405), (68416, 68437), (68440, 68466),
   (68472, 68497), (68521, 68527), (68608, 68680), (68736, 68786), (68800, 68850),
   (68858, 68899), (68912, 68921), (69216, 69246), (69248, 69289), (69296, 69297),
   (69376, 69415), (69424, 69445), (69457, 69460), (69488, 69505), (69552, 69579),
   (69600, 69622), (69635, 69687), (69714, 69743), (69745, 69746), (69749, 69749),
   (69763, 69807), (69840, 69864), (69872, 69881), (69891, 69926), (69942, 69951),
   (69956, 69956), (69959, 69959), (69968, 70002), (70006, 70006), (70019, 70066),
   (70081, 70084), (70096, 70106), (70108, 70108), (70113, 70132), (70144, 70161),
   (70163, 70187), (70272, 70278), (70280, 70280), (70282, 70285), (70287, 70301),
   (70303, 70312), (70320, 70366), (70384, 70393), (70405, 70412), (70415, 70416),
   (70419, 70440), (70442, 70448), (70450, 70451), (70453, 70457), (70461, 70461),
   (70480, 70480), (70493, 70497), (70656, 70708), (70727, 70730), (70736, 70745),
   (70751, 70753), (70784, 70831), (70852, 70853), (70855, 70855), (70864, 70873),
   (71040, 71086), (71128, 71131), (71168, 71215), (71236, 71236), (71248, 71257),
   (71296, 71338), (71352, 71352), (71360, 71369), (71424, 71450), (71472, 71483),
   (71488, 71494), (71680, 71723), (71840, 71922), (71935, 71942), (71945, 71945),
   (71948, 71955), (71957, 71958), (71960, 71983), (71999, 71999), (72001, 72001),
   (72016, 72025), (72096, 72103), (72106, 72144), (72161, 72161), (72163, 72163),
   (72192, 72192), (72203, 72242), (72250, 72250), (72272, 72272), (72284, 72329),
   (72349, 72349), (72368, 72440), (72704, 72712), (72714, 72750), (72768, 72768),
   (72784, 72812), (72818, 72847), (72960, 72966), (72968, 72969), (72971, 73008),
   (73030, 73030), (73040, 73049), (73056, 73061), (73063, 73064), (73066, 73097),
   (73112, 73112), (73120, 73129), (73440, 73458), (73648, 73648), (73664, 73684),
   (73728, 74649), (74752, 74862), (74880, 75075), (77712, 77808), (77824, 78894),
   (82944, 83526), (92160, 92728), (92736, 92766), (92768, 92777), (92784, 92862),
   (92864, 92873), (92880, 92909), (92928, 92975), (92992, 92995), (93008, 93017),
   (93019, 93025), (93027, 93047), (93053, 93071), (93760, 93846), (93952, 94026),
   (94032, 94032), (94099, 94111), (94176, 94177), (94179, 94179), (94208, 100343),
   (100352, 101589), (101632, 101640), (110576, 110579), (110581, 110587), (110589, 110590),
   (110592, 110882), (110928, 110930), (110948, 110951), (110960, 111355), (113664, 113770),
   (113776, 113788), (113792, 113800), (113808, 113817), (119520, 119539), (119648, 119672),
   (119808, 119892), (119894, 119964), (119966, 119967), (119970, 119970), (119973, 119974),
   (119977, 119980), (119982, 119993), (119995, 119995), (119997, 120003), (120005, 120069),
   (120071, 120074), (120077, 120084), (120086, 120092), (120094, 120121), (120123, 120126),
   (120128, 120132), (120134, 120134), (120138, 120144), (120146, 120485), (120488, 120512),
   (120514, 120538), (120540, 120570), (120572, 120596), (120598, 120628), (120630, 120654),
   (120656, 120686), (120688, 120712), (120714, 120744), (120746, 120770), (120772, 120779),
   (120782, 120831), (122624, 122654), (123136, 123180), (123191, 123197), (123200, 123209),
   (123214, 123214), (123536, 123565), (123584, 123627), (123632, 123641), (124896, 124902),
   (124904, 124907), (124909, 124910), (124912, 124926), (124928, 125124), (125127, 125135),
   (125184, 125251), (125259, 125259), (125264, 125273), (126065, 126123), (126125, 126127),
   (126129, 126132), (126209, 126253), (126255, 126269), (126464, 126467), (126469, 126495),
   (126497, 126498), (126500, 126500), (126503, 126503), (126505, 126514), (126516, 126519),
   (126521, 126521), (126523, 126523), (126530, 126530), (126535, 126535), (126537, 126537),
   (126539, 126539), (126541, 126543), (126545, 126546), (126548, 126548), (126551, 126551),
   (126553, 126553), (126555, 126555), (126557, 126557), (126559, 126559), (126561, 126562),
   (126564, 126564), (126567, 126570), (126572, 126578), (126580, 126583), (126585, 126588),
   (126590, 126590), (126592, 126601), (126603, 126619), (126625, 126627), (126629, 126633),
   (126635, 126651), (127232, 127244), (130032, 130041), (131072, 173791), (173824, 177976),
   (177984, 178205), (178208, 183969), (183984, 191456), (194560, 195101), (196608, 201546)]"

definition uni_digit :: "codepoint \<Rightarrow> bool" where
  "uni_digit c = in_ranges c digit_ranges"

definition uni_space :: "codepoint \<Rightarrow> bool" where
  "uni_space c = in_ranges c space_ranges"

definition uni_word :: "codepoint \<Rightarrow> bool" where
  "uni_word c = in_ranges c word_ranges"

text \<open>\<^verbatim>\<open>s.strip()\<close>, \<^verbatim>\<open>sep.join(xs)\<close> and \<^verbatim>\<open>s[i:j]\<close> for \<open>0 \<le> i \<le> j\<close>.\<close>

definition py_strip :: "pystr \<Rightarrow> pystr" where
  "py_strip s = rev (dropWhile uni_space (rev (dropWhile uni_space s)))"

fun py_join :: "pystr \<Rightarrow> pystr list \<Rightarrow> pystr" where
  "py_join sep [] = []"
| "py_join sep [x] = x"
| "py_join sep (x # y # ys) = x @ sep @ py_join sep (y # ys)"

definition slice :: "pystr \<Rightarrow> nat \<Rightarrow> nat \<Rightarrow> pystr" where
  "slice s i j = take (j - i) (drop i s)"

section \<open>Regular expressions as the \<^verbatim>\<open>re\<close> module matches them\<close>

text \<open>
  The syntax of the patterns in \<^verbatim>\<open>extract_fields\<close>. \<open>Rep lo hi r\<close> is the greedy
  repetition \<^verbatim>\<open>r{lo,hi}\<close> (\<open>hi = None\<close>: unbounded), so \<^verbatim>\<open>r?\<close>, \<^verbatim>\<open>r*\<close> and
  \<^verbatim>\<open>r+\<close> are \<open>Rep 0 (Some 1) r\<close>, \<open>Rep 0 None r\<close> and \<open>Rep 1 None r\<close>.
  \<open>NotBehind cs\<close> is the negative lookbehind \<^verbatim>\<open>(?<![cs])\<close> on one character and
  \<open>WordB\<close> is \<^verbatim>\<open>\b\<close>.
\<close>

datatype citem = CChar codepoint | CRange codepoint codepoint | CDigit | CSpace

datatype regex =
    Lit codepoint
  | In "citem list"
  | Seq regex regex
  | Alt regex regex
  | Rep nat "nat option" regex
  | Group nat regex
  | NotBehind "citem list"
  | WordB

abbreviation Opt :: "regex \<Rightarrow> regex" where
  "Opt r \<equiv> Rep 0 (Some 1) r"

abbreviation Star :: "regex \<Rightarrow> regex" where
  "Star r \<equiv> Rep 0 None r"

abbreviation Plus :: "regex \<Rightarrow> regex" where
  "Plus r \<equiv> Rep 1 None r"

fun cat :: "regex list \<Rightarrow> regex" where
  "cat [] = Rep 0 (Some 0) (In [])"
| "cat [r] = r"
| "cat (r # rs) = Seq r (cat rs)"

definition lits :: "string \<Rightarrow> regex" where
  "lits cs = cat (map (\<lambda>c. Lit (of_char c)) cs)"

text \<open>
  Case-insensitive matching (\<^verbatim>\<open>re.I\<close>) compares the lower-cased subject character
  with the lower-cased pattern character and with its partners in the table
  \<^verbatim>\<open>_equivalences\<close> of the compiler. \<open>sre_lower\<close> is the simple lowercase mapping on the
  code points whose image is ASCII; every other code point keeps a non-ASCII image, written
  here as the code point itself, which none of the patterns below names. The only
  \<^verbatim>\<open>_equivalences\<close> partners of ASCII letters are dotless i for \<open>i\<close> and long s
  for \<open>s\<close>.
\<close>

definition sre_lower :: "codepoint \<Rightarrow> codepoint" where
  "sre_lower c =
     (if 65 \<le> c \<and> c \<le> 90 then c + 32
      else if c = 304 then 105
      else if c = 8490 then 107
      else c)"

definition fixes_of :: "codepoint \<Rightarrow> codepoint list" where
  "fixes_of lo = (if lo = 105 then [305] else if lo = 115 then [383] else [])"

definition lit_eq :: "bool \<Rightarrow> codepoint \<Rightarrow> codepoint \<Rightarrow> bool" where
  "lit_eq ic c ch =
     (if ic then sre_lower ch = sre_lower c \<or> sre_lower ch \<in> set (fixes_of (sre_lower c))
      else ch = c)"

fun item_mem :: "bool \<Rightarrow> citem \<Rightarrow> codepoint \<Rightarrow> bool" where
  "item_mem ic (CChar c) ch = lit_eq ic c ch"
| "item_mem ic (CRange a b) ch =
     (if ic then list_ex (\<lambda>c. lit_eq True c ch) [a ..< Suc b] else a \<le> ch \<and> ch \<le> b)"
| "item_mem ic CDigit ch = uni_digit (if ic then sre_lower ch else ch)"
| "item_mem ic CSpace ch = uni_space (if ic then sre_lower ch else ch)"

definition cls_mem :: "bool \<Rightarrow> citem list \<Rightarrow> codepoint \<Rightarrow> bool" where
  "cls_mem ic cs ch = list_ex (\<lambda>it. item_mem ic it ch) cs"

text \<open>
  The matcher enumerates the backtracking search of the engine. A state is a cursor in the
  subject (the position, the character before it if there is one, the characters from it
  on) and the groups captured so far (newest first, as group number, start, end).
  \<open>ms r ic st\<close> lists the states in which a match of \<open>r\<close> begun at \<open>st\<close> can end, in
  the order in which the engine tries them: the head is the match the engine reports, the
  tail is what it would reach by backtracking. \<open>ic\<close> is the flag \<^verbatim>\<open>re.I\<close>.
\<close>

datatype mstate =
  MState (pos: nat) (prev: "codepoint option") (rest: pystr) (caps: "(nat \<times> nat \<times> nat) list")

fun step :: "(codepoint \<Rightarrow> bool) \<Rightarrow> mstate \<Rightarrow> mstate list" where
  "step P (MState p pr [] g) = []"
| "step P (MState p pr (x # xs) g) = (if P x then [MState (Suc p) (Some x) xs g] else [])"

definition close_group :: "nat \<Rightarrow> nat \<Rightarrow> mstate \<Rightarrow> mstate" where
  "close_group n start st = MState (pos st) (prev st) (rest st) ((n, start, pos st) # caps st)"

fun word_at :: "codepoint option \<Rightarrow> bool" where
  "word_at None = False"
| "word_at (Some c) = uni_word c"

fun head_of :: "pystr \<Rightarrow> codepoint option" where
  "head_of [] = None"
| "head_of (x # xs) = Some x"

definition at_boundary :: "mstate \<Rightarrow> bool" where
  "at_boundary st = (word_at (prev st) \<noteq> word_at (head_of (rest st)))"

fun behind :: "bool \<Rightarrow> citem list \<Rightarrow> codepoint option \<Rightarrow> bool" where
  "behind ic cs None = False"
| "behind ic cs (Some c) = cls_mem ic cs c"

text \<open>
  A greedy repetition first runs its mandatory iterations, then prefers one more iteration
  over stopping. An optional iteration that consumed nothing ends the loop, as in the
  engine. The fuel bounds the depth of the loop; \<open>ms\<close> passes the mandatory count plus the
  number of characters left plus one, which the loop cannot use up.
\<close>

fun dec :: "nat option \<Rightarrow> nat option" where
  "dec None = None"
| "dec (Some n) = Some (n - 1)"

fun rep_loop ::
  "(mstate \<Rightarrow> mstate list) \<Rightarrow> nat \<Rightarrow> nat option \<Rightarrow> nat \<Rightarrow> mstate \<Rightarrow> mstate list" where
  "rep_loop body lo hi 0 st = []"
| "rep_loop body lo hi (Suc fuel) st =
     (if 0 < lo then concat (map (rep_loop body (lo - 1) (dec hi) fuel) (body st))
      else if hi = Some 0 then [st]
      else concat (map (\<lambda>st'. if pos st' \<le> pos st then [st']
                                else rep_loop body 0 (dec hi) fuel st') (body st)) @ [st])"

primrec ms :: "regex \<Rightarrow> bool \<Rightarrow> mstate \<Rightarrow> mstate list" where
  "ms (Lit c) ic st = step (lit_eq ic c) st"
| "ms (In cs) ic st = step (cls_mem ic cs) st"
| "ms (Seq a b) ic st = concat (map (ms b ic) (ms a ic st))"
| "ms (Alt a b) ic st = ms a ic st @ ms b ic st"
| "ms (Rep lo hi r) ic st = rep_loop (ms r ic) lo hi (lo + length (rest st) + 1) st"
| "ms (Group n r) ic st = map (close_group n (pos st)) (ms r ic st)"
| "ms (NotBehind cs) ic st = (if behind ic cs (prev st) then [] else [st])"
| "ms WordB ic st = (if at_boundary st then [st] else [])"

text \<open>
  A match object: where the whole match starts and ends, and the groups.
  \<^verbatim>\<open>m.group(0)\<close> is the whole match, \<^verbatim>\<open>m.group(n)\<close> the text of group \<open>n\<close>.
\<close>

record match_obj =
  m_start :: nat
  m_end :: nat
  m_groups :: "(nat \<times> nat \<times> nat) list"

definition match_at :: "regex \<Rightarrow> bool \<Rightarrow> nat \<Rightarrow> codepoint option \<Rightarrow> pystr \<Rightarrow> match_obj option" where
  "match_at r ic p pr s =
     (case ms r ic (MState p pr s []) of
        [] \<Rightarrow> None
      | st # _ \<Rightarrow> Some \<lparr>m_start = p, m_end = pos st, m_groups = caps st\<rparr>)"

text \<open>
  \<^verbatim>\<open>re.search\<close> tries the start positions \<open>0, 1, ..., len(s)\<close> in this order:
  \<open>search_from r ic p pr s\<close> is the scan from position \<open>p\<close> on, where \<open>s\<close> is what is left
  of the subject.
\<close>

fun search_from :: "regex \<Rightarrow> bool \<Rightarrow> nat \<Rightarrow> codepoint option \<Rightarrow> pystr \<Rightarrow> match_obj option" where
  "search_from r ic p pr [] = match_at r ic p pr []"
| "search_from r ic p pr (x # xs) =
     (case match_at r ic p pr (x # xs) of
        Some m \<Rightarrow> Some m
      | None \<Rightarrow> search_from r ic (Suc p) (Some x) xs)"

definition re_search :: "regex \<Rightarrow> bool \<Rightarrow> pystr \<Rightarrow> match_obj option" where
  "re_search r ic s = search_from r ic 0 None s"



definition group0 :: "pystr \<Rightarrow> match_obj \<Rightarrow> pystr" where
  "group0 s m = slice s (m_start m) (m_end m)"

definition group :: "pystr \<Rightarrow> match_obj \<Rightarrow> nat \<Rightarrow> pystr option" where
  "group s m n = map_option (\<lambda>(i, j). slice s i j) (map_of (m_groups m) n)"

text \<open>
  \<open>reach st st'\<close>: the cursor of \<open>st'\<close> is the cursor of \<open>st\<close> moved forward over some
  of the characters that were left.
\<close>

definition reach :: "mstate \<Rightarrow> mstate \<Rightarrow> bool" where
  "reach st st' \<longleftrightarrow>
     pos st \<le> pos st' \<and> pos st' - pos st \<le> length (rest st) \<and>
     rest st' = drop (pos st' - pos st) (rest st)"

section \<open>The field extractor\<close>

text \<open>
  The four patterns of \<^verbatim>\<open>extract_fields\<close>:
  \<^verbatim>\<open>(invoice\s*(?:no|#|number)?\s*[:\-]?\s*)([A-Za-z0-9\-_/]+)\<close> (with \<^verbatim>\<open>re.I\<close>),
  \<^verbatim>\<open>(?<!\d)(?:USD|INR|Rs\.?|M|\$)?\s?([0-9]{1,3}(?:[, ]?[0-9]{3})*(?:\.[0-9]{1,2})?)\<close>
  where \<^verbatim>\<open>M\<close> is the three code points U+00E2 U+201A U+00B9 of the source file,
  \<^verbatim>\<open>[A-Za-z0-9._%+-]+@[A-Za-z0-9.-]+\.[A-Za-z]{2,}\<close> and
  \<^verbatim>\<open>\b(\d{1,2}[/-]\d{1,2}[/-]\d{2,4}|\d{4}[/-]\d{1,2}[/-]\d{1,2})\b\<close>.
\<close>

abbreviation ch :: "char \<Rightarrow> codepoint" where
  "ch c \<equiv> of_char c"

definition ascii_digit :: regex where
  "ascii_digit = In [CRange (ch CHR ''0'') (ch CHR ''9'')]"

definition invoice_re :: regex where
  "invoice_re =
     Seq (Group 1 (cat [lits ''invoice'', Star (In [CSpace]),
                        Opt (Alt (lits ''no'') (Alt (lits ''#'') (lits ''number''))),
                        Star (In [CSpace]),
                        Opt (In [CChar (ch CHR '':''), CChar (ch CHR ''-'')]),
                        Star (In [CSpace])]))
         (Group 2 (Plus (In [CRange (ch CHR ''A'') (ch CHR ''Z''), CRange (ch CHR ''a'') (ch CHR ''z''),
                             CRange (ch CHR ''0'') (ch CHR ''9''), CChar (ch CHR ''-''),
                             CChar (ch CHR ''_''), CChar (ch CHR ''/'')])))"

definition amount_marker :: regex where
  "amount_marker =
     Alt (lits ''USD'')
      (Alt (lits ''INR'')
        (Alt (Seq (lits ''Rs'') (Opt (Lit (ch CHR ''.''))))
          (Alt (cat [Lit 226, Lit 8218, Lit 185])
               (Lit (ch CHR ''$'')))))"

definition amount_number :: regex where
  "amount_number =
     cat [Rep 1 (Some 3) ascii_digit,
          Star (Seq (Opt (In [CChar (ch CHR '',''), CChar (ch CHR '' '')])) (Rep 3 (Some 3) ascii_digit)),
          Opt (Seq (Lit (ch CHR ''.'')) (Rep 1 (Some 2) ascii_digit))]"

definition amount_re :: regex where
  "amount_re =
     cat [NotBehind [CDigit], Opt amount_marker, Opt (In [CSpace]), Group 1 amount_number]"

definition email_re :: regex where
  "email_re =
     cat [Plus (In [CRange (ch CHR ''A'') (ch CHR ''Z''), CRange (ch CHR ''a'') (ch CHR ''z''),
                    CRange (ch CHR ''0'') (ch CHR ''9''), CChar (ch CHR ''.''), CChar (ch CHR ''_''),
                    CChar (ch CHR ''%''), CChar (ch CHR ''+''), CChar (ch CHR ''-'')]),
          Lit (ch CHR ''@''),
          Plus (In [CRange (ch CHR ''A'') (ch CHR ''Z''), CRange (ch CHR ''a'') (ch CHR ''z''),
                    CRange (ch CHR ''0'') (ch CHR ''9''), CChar (ch CHR ''.''), CChar (ch CHR ''-'')]),
          Lit (ch CHR ''.''),
          Rep 2 None (In [CRange (ch CHR ''A'') (ch CHR ''Z''), CRange (ch CHR ''a'') (ch CHR ''z'')])]"

definition date_sep :: regex where
  "date_sep = In [CChar (ch CHR ''/''), CChar (ch CHR ''-'')]"

definition date_re :: regex where
  "date_re =
     cat [WordB,
          Group 1 (Alt (cat [Rep 1 (Some 2) (In [CDigit]), date_sep, Rep 1 (Some 2) (In [CDigit]),
                             date_sep, Rep 2 (Some 4) (In [CDigit])])
                       (cat [Rep 4 (Some 4) (In [CDigit]), date_sep, Rep 1 (Some 2) (In [CDigit]),
                             date_sep, Rep 1 (Some 2) (In [CDigit])])),
          WordB]"

record fields =
  invoice_number :: "pystr option"
  amount :: "pystr option"
  email :: "pystr option"
  date :: "pystr option"

definition extract_fields :: "pystr \<Rightarrow> fields" where
  "extract_fields text =
     (let fields = \<lparr>invoice_number = None, amount = None, email = None, date = None\<rparr>;
          fields = (case re_search invoice_re True text of
                      Some m \<Rightarrow> fields\<lparr>invoice_number := group text m 2\<rparr>
                    | None \<Rightarrow> fields);
          fields = (case re_search amount_re False text of
                      Some m \<Rightarrow> fields\<lparr>amount := Some (py_strip (group0 text m))\<rparr>
                    | None \<Rightarrow> fields);
          fields = (case re_search email_re False text of
                      Some m \<Rightarrow> fields\<lparr>email := Some (group0 text m)\<rparr>
                    | None \<Rightarrow> fields);
          fields = (case re_search date_re False text of
                      Some m \<Rightarrow> fields\<lparr>date := group text m 1\<rparr>
                    | None \<Rightarrow> fields)
      in fields)"

section \<open>The text extractor\<close>

text \<open>
  The libraries the extractor calls are capabilities of a backend record: the PDF reader
  (\<^verbatim>\<open>PyPDF2.PdfReader(...).pages\<close> with each page's \<^verbatim>\<open>extract_text()\<close>), the rasterizer
  (\<^verbatim>\<open>pdf2image.convert_from_bytes\<close>, whose import may fail), the image decoder
  (\<^verbatim>\<open>Image.open(...).convert("RGB")\<close>) and the OCR engine
  (\<^verbatim>\<open>pytesseract.image_to_string\<close>). Each call returns a value or raises an exception
  (\<open>Inl\<close>). Every function returns, next to its result, the backend calls it made, in
  order.
\<close>

text \<open>A payload is the list of its byte values.\<close>

type_synonym bytes = "nat list"

datatype exc = Exc string

type_synonym page = "exc + pystr option"

datatype 'img event = PdfRead bytes | Rasterize bytes nat | ImageOpen bytes | Ocr 'img

record 'img backend =
  pdf_pages :: "bytes \<Rightarrow> exc + page list"
  import_pdf2image :: "exc option"
  convert_from_bytes :: "bytes \<Rightarrow> nat \<Rightarrow> exc + 'img list"
  image_open :: "bytes \<Rightarrow> exc + 'img"
  image_to_string :: "'img \<Rightarrow> exc + pystr"

definition ocr_image_bytes :: "'img backend \<Rightarrow> bytes \<Rightarrow> (exc + pystr) \<times> 'img event list" where
  "ocr_image_bytes env image_bytes =
     (case image_open env image_bytes of
        Inl e \<Rightarrow> (Inl e, [ImageOpen image_bytes])
      | Inr img \<Rightarrow> (image_to_string env img, [ImageOpen image_bytes, Ocr img]))"

text \<open>\<^verbatim>\<open>page.extract_text() or ""\<close>: \<^verbatim>\<open>None\<close> and the empty string both give \<^verbatim>\<open>""\<close>.\<close>

fun or_empty :: "pystr option \<Rightarrow> pystr" where
  "or_empty None = []"
| "or_empty (Some t) = t"

text \<open>The first loop: \<^verbatim>\<open>text += page_text + "\n"\<close> for each page.\<close>

fun read_pages :: "page list \<Rightarrow> pystr \<Rightarrow> exc + pystr" where
  "read_pages [] text = Inr text"
| "read_pages (Inl e # pgs) text = Inl e"
| "read_pages (Inr page_text # pgs) text = read_pages pgs (text @ or_empty page_text @ [10])"

text \<open>The second loop: \<^verbatim>\<open>ocr_text.append(pytesseract.image_to_string(img))\<close>.\<close>

fun ocr_images ::
  "'img backend \<Rightarrow> 'img list \<Rightarrow> pystr list \<Rightarrow> (exc + pystr list) \<times> 'img event list" where
  "ocr_images env [] ocr_text = (Inr ocr_text, [])"
| "ocr_images env (img # imgs) ocr_text =
     (case image_to_string env img of
        Inl e \<Rightarrow> (Inl e, [Ocr img])
      | Inr t \<Rightarrow> (case ocr_images env imgs (ocr_text @ [t]) of (r, evs) \<Rightarrow> (r, Ocr img # evs)))"

text \<open>The body of the \<^verbatim>\<open>try\<close> block.\<close>

definition ocr_fallback :: "'img backend \<Rightarrow> bytes \<Rightarrow> (exc + pystr) \<times> 'img event list" where
  "ocr_fallback env pdf_bytes =
     (case import_pdf2image env of
        Some e \<Rightarrow> (Inl e, [])
      | None \<Rightarrow>
          (case convert_from_bytes env pdf_bytes 300 of
             Inl e \<Rightarrow> (Inl e, [Rasterize pdf_bytes 300])
           | Inr images \<Rightarrow>
               (case ocr_images env images [] of
                  (Inl e, evs) \<Rightarrow> (Inl e, Rasterize pdf_bytes 300 # evs)
                | (Inr ocr_text, evs) \<Rightarrow>
                    (Inr (py_strip (py_join [10] ocr_text)), Rasterize pdf_bytes 300 # evs))))"

definition extract_text_from_pdf ::
  "'img backend \<Rightarrow> bytes \<Rightarrow> (exc + pystr) \<times> 'img event list" where
  "extract_text_from_pdf env pdf_bytes =
     (case pdf_pages env pdf_bytes of
        Inl e \<Rightarrow> (Inl e, [PdfRead pdf_bytes])
      | Inr pages \<Rightarrow>
          (case read_pages pages [] of
             Inl e \<Rightarrow> (Inl e, [PdfRead pdf_bytes])
           | Inr text \<Rightarrow>
               (let text = py_strip text in
                if text = [] then
                  (case ocr_fallback env pdf_bytes of
                     (Inl e, evs) \<Rightarrow> (Inr [], PdfRead pdf_bytes # evs)
                   | (Inr text, evs) \<Rightarrow> (Inr text, PdfRead pdf_bytes # evs))
                else (Inr text, [PdfRead pdf_bytes]))))"

text \<open>
  The dispatch on the declared media type in \<^verbatim>\<open>upload\<close>. A failure is an exception
  that leaves the handler, or the response 400 \<^verbatim>\<open>Unsupported file type\<close>.
\<close>

datatype failure = Raised exc | Unsupported string

definition image_types :: "string list" where
  "image_types = [''image/png'', ''image/jpeg'', ''image/jpg'', ''image/webp'', ''image/bmp'',
                  ''image/tiff'']"

fun raised :: "(exc + pystr) \<times> 'e list \<Rightarrow> (failure + pystr) \<times> 'e list" where
  "raised (Inl e, evs) = (Inl (Raised e), evs)"
| "raised (Inr t, evs) = (Inr t, evs)"

definition extract_text ::
  "'img backend \<Rightarrow> string \<Rightarrow> bytes \<Rightarrow> (failure + pystr) \<times> 'img event list" where
  "extract_text env content_type content =
     (if content_type \<in> set image_types then raised (ocr_image_bytes env content)
      else if content_type = ''application/pdf'' then raised (extract_text_from_pdf env content)
      else (case ocr_image_bytes env content of
              (Inl e, evs) \<Rightarrow> (Inl (Unsupported content_type), evs)
            | (Inr t, evs) \<Rightarrow> (Inr t, evs)))"

text \<open>
  What \<^verbatim>\<open>upload\<close> stores: the extracted text, stripped once more, and its fields.
  A missing content type is the empty string.
\<close>

definition upload ::
  "'img backend \<Rightarrow> string option \<Rightarrow> bytes \<Rightarrow> (failure + pystr \<times> fields) \<times> 'img event list" where
  "upload env ctype content =
     (let content_type = (case ctype of None \<Rightarrow> [] | Some c \<Rightarrow> c) in
      case extract_text env content_type content of
        (Inl f, evs) \<Rightarrow> (Inl f, evs)
      | (Inr extracted_text, evs) \<Rightarrow>
          (let extracted_text = py_strip extracted_text
           in (Inr (extracted_text, extract_fields extracted_text), evs)))"

section \<open>Test inputs\<close>

text \<open>The example text of the specification.\<close>

definition example_text :: pystr where
  "example_text =
     ustr ''Invoice No: INV-2023-045, contact billing@example.com, $1,250.00 due 12/31/2023''"

text \<open>
  A test double for the backend: a PDF reader that returns the given pages, an import of
  the rasterizer that fails with the given exception if there is one, a rasterizer that
  returns the images \<open>0, 1, ...\<close>, one for each given OCR outcome, a decoder that rejects
  the empty payload, and an OCR engine that returns the outcome given for each image.
\<close>

definition fake_backend :: "page list \<Rightarrow> exc option \<Rightarrow> (exc + pystr) list \<Rightarrow> nat backend" where
  "fake_backend pages imp ocr =
     \<lparr>pdf_pages = (\<lambda>b. Inr pages),
      import_pdf2image = imp,
      convert_from_bytes = (\<lambda>b dpi. Inr [0 ..< length ocr]),
      image_open = (\<lambda>b. if b = [] then Inl (Exc ''UnidentifiedImageError'') else Inr 0),
      image_to_string = (\<lambda>i. if i < length ocr then ocr ! i else Inl (Exc ''TesseractError''))\<rparr>"

section \<open>Properties of the text extractor\<close>

subsection \<open>Stripping and the two loops\<close>

lemma space_nl: "uni_space 10"
  by (simp add: uni_space_def space_ranges_def)

lemma all_dropWhile: "(\<forall>x\<in>set (dropWhile P s). P x) \<longleftrightarrow> (\<forall>x\<in>set s. P x)"
  by (induction s) auto

lemma py_strip_empty_iff: "py_strip s = [] \<longleftrightarrow> (\<forall>c\<in>set s. uni_space c)"
  by (simp add: py_strip_def dropWhile_eq_Nil_conv all_dropWhile)

lemma strip_keeps_head:
  "t \<noteq> [] \<Longrightarrow> \<not> P (hd t) \<Longrightarrow>
     rev (dropWhile P (rev t)) \<noteq> [] \<and> hd (rev (dropWhile P (rev t))) = hd t"
  by (induction t rule: rev_induct) (auto simp: hd_append)

lemma dropWhile_strip:
  "dropWhile P (rev (dropWhile P (rev (dropWhile P s)))) = rev (dropWhile P (rev (dropWhile P s)))"
proof (cases "dropWhile P s = []")
  case True
  show ?thesis unfolding True by simp
next
  case False
  then have "\<not> P (hd (dropWhile P s))" by (rule hd_dropWhile)
  with False have "rev (dropWhile P (rev (dropWhile P s))) \<noteq> []"
    and "\<not> P (hd (rev (dropWhile P (rev (dropWhile P s)))))"
    using strip_keeps_head[of "dropWhile P s" P] by auto
  then show ?thesis by (cases "rev (dropWhile P (rev (dropWhile P s)))") auto
qed

lemma py_strip_idem: "py_strip (py_strip s) = py_strip s"
  by (simp add: py_strip_def dropWhile_strip)

lemma read_pages_ok:
  "read_pages (map Inr ts) acc = Inr (acc @ concat (map (\<lambda>t. or_empty t @ [10]) ts))"
  by (induction ts arbitrary: acc) simp_all

lemma read_pages_Inr:
  "read_pages pages acc = Inr text \<Longrightarrow>
     \<exists>ts. pages = map Inr ts \<and> text = acc @ concat (map (\<lambda>t. or_empty t @ [10]) ts)"
proof (induction pages acc rule: read_pages.induct)
  case (1 acc)
  then show ?case by simp
next
  case (2 e pgs acc)
  then show ?case by simp
next
  case (3 page_text pgs acc)
  then obtain ts where "pgs = map Inr ts"
    "text = (acc @ or_empty page_text @ [10]) @ concat (map (\<lambda>t. or_empty t @ [10]) ts)"
    by auto
  then show ?case by (intro exI[of _ "page_text # ts"]) simp
qed

lemma ocr_images_ok:
  "map (image_to_string env) imgs = map Inr outs \<Longrightarrow>
     ocr_images env imgs acc = (Inr (acc @ outs), map Ocr imgs)"
  by (induction imgs arbitrary: acc outs) auto

lemma ocr_images_fail:
  "map (image_to_string env) pre = map Inr outs \<Longrightarrow> image_to_string env img = Inl e \<Longrightarrow>
     ocr_images env (pre @ img # post) acc = (Inl e, map Ocr pre @ [Ocr img])"
  by (induction pre arbitrary: acc outs) auto

lemma ocr_images_fail_ex:
  "\<exists>img\<in>set imgs. \<exists>e. image_to_string env img = Inl e \<Longrightarrow>
     \<exists>e. fst (ocr_images env imgs acc) = Inl e"
proof (induction imgs arbitrary: acc)
  case Nil
  then show ?case by simp
next
  case (Cons a imgs)
  show ?case
  proof (cases "image_to_string env a")
    case (Inl e)
    then show ?thesis by simp
  next
    case (Inr t)
    with Cons.prems have "\<exists>img\<in>set imgs. \<exists>e. image_to_string env img = Inl e" by auto
    from Cons.IH[OF this, of "acc @ [t]"] Inr show ?thesis
      by (auto split: prod.splits)
  qed
qed

lemma phase1_nonblank:
  assumes "read_pages pages [] = Inr txt" and "py_strip txt \<noteq> []"
  shows "\<exists>t. Inr t \<in> set pages \<and> (\<exists>c\<in>set (or_empty t). \<not> uni_space c)"
proof -
  have "\<exists>ts. pages = map Inr ts \<and> txt = [] @ concat (map (\<lambda>t. or_empty t @ [10]) ts)"
    using assms(1) by (rule read_pages_Inr)
  then obtain ts where ts: "pages = map Inr ts"
    "txt = concat (map (\<lambda>t. or_empty t @ [10]) ts)"
    by auto
  from assms(2) obtain c where c: "c \<in> set txt" "\<not> uni_space c"
    by (auto simp: py_strip_empty_iff)
  have "c \<noteq> 10" using c(2) space_nl by auto
  with c(1) ts(2) obtain t where "t \<in> set ts" "c \<in> set (or_empty t)"
    by (auto split: if_splits)
  with c ts show ?thesis by auto
qed

lemmas strip_eval = py_strip_def uni_space_def space_ranges_def

subsection \<open>The claims about the text extractor\<close>

text \<open>
  Claim C2. When the page texts of a PDF, each followed by a newline and concatenated in
  page order, are not empty after stripping (some page has a character that is not white
  space), the extractor returns that stripped text and the only backend call is the PDF
  reader: neither the rasterizer nor the OCR engine is called. Pages without text do not
  change this. What \<^verbatim>\<open>upload\<close> stores is the same text.
\<close>

theorem pdf_text_skips_ocr:
  assumes "pdf_pages env b = Inr pages"
    and "read_pages pages [] = Inr txt"
    and "py_strip txt \<noteq> []"
  shows "extract_text env ''application/pdf'' b = (Inr (py_strip txt), [PdfRead b])
       \<and> fst (upload env (Some ''application/pdf'') b) =
             Inr (py_strip txt, extract_fields (py_strip txt))
       \<and> (\<exists>t. Inr t \<in> set pages \<and> (\<exists>c\<in>set (or_empty t). \<not> uni_space c))"
proof -
  have a: "extract_text env ''application/pdf'' b = (Inr (py_strip txt), [PdfRead b])"
    using assms by (simp add: extract_text_def image_types_def extract_text_from_pdf_def)
  have "fst (upload env (Some ''application/pdf'') b) =
          Inr (py_strip txt, extract_fields (py_strip txt))"
    by (simp add: upload_def a py_strip_idem Let_def)
  with a phase1_nonblank[OF assms(2,3)] show ?thesis by simp
qed

theorem pdf_text_skips_ocr_witness:
  "pdf_pages (fake_backend [Inr (Some [72, 105]), Inr None, Inr (Some [])] None [Inr [111]])
       [37, 80, 68, 70]
     = Inr [Inr (Some [72, 105]), Inr None, Inr (Some [])]
   \<and> read_pages [Inr (Some [72, 105]), Inr None, Inr (Some [])] [] = Inr [72, 105, 10, 10, 10]
   \<and> py_strip [72, 105, 10, 10, 10] \<noteq> []
   \<and> extract_text (fake_backend [Inr (Some [72, 105]), Inr None, Inr (Some [])] None [Inr [111]])
         ''application/pdf'' [37, 80, 68, 70]
       = (Inr [72, 105], [PdfRead [37, 80, 68, 70]])"
proof -
  let ?P = "[Inr (Some [72, 105]), Inr None, Inr (Some [])] :: page list"
  let ?E = "fake_backend ?P None [Inr [111]]"
  have h1: "pdf_pages ?E [37, 80, 68, 70] = Inr ?P" by (simp add: fake_backend_def)
  have h2: "read_pages ?P [] = Inr [72, 105, 10, 10, 10]" by simp
  have h3: "py_strip [72, 105, 10, 10, 10] \<noteq> []" by (simp add: strip_eval)
  have s: "py_strip [72, 105, 10, 10, 10] = [72, 105]" by (simp add: strip_eval)
  from pdf_text_skips_ocr[OF h1 h2 h3] h1 h2 h3 show ?thesis by (simp only: s) simp
qed

text \<open>
  Claim C3. When the stripped text of the first phase is empty and the rasterizer and the
  OCR engine succeed, the extractor rasterizes the document once at 300 DPI, calls the OCR
  engine exactly once for each page image, in page order, and returns the OCR outputs
  joined by newlines in that order and stripped.
\<close>

theorem image_only_pdf_ocr_per_page:
  assumes "pdf_pages env b = Inr pages"
    and "read_pages pages [] = Inr txt"
    and "py_strip txt = []"
    and "import_pdf2image env = None"
    and "convert_from_bytes env b 300 = Inr imgs"
    and "map (image_to_string env) imgs = map Inr outs"
  shows "extract_text env ''application/pdf'' b =
           (Inr (py_strip (py_join [10] outs)), PdfRead b # Rasterize b 300 # map Ocr imgs)"
  using assms ocr_images_ok[of env imgs outs "[]"]
  by (simp add: extract_text_def image_types_def extract_text_from_pdf_def ocr_fallback_def)

theorem image_only_pdf_ocr_per_page_witness:
  "pdf_pages (fake_backend [Inr None, Inr (Some [32])] None [Inr [32, 65, 10], Inr [66, 32]]) [37]
     = Inr [Inr None, Inr (Some [32])]
   \<and> read_pages [Inr None, Inr (Some [32])] [] = Inr [10, 32, 10]
   \<and> py_strip [10, 32, 10] = []
   \<and> import_pdf2image (fake_backend [Inr None, Inr (Some [32])] None [Inr [32, 65, 10], Inr [66, 32]])
       = None
   \<and> convert_from_bytes (fake_backend [Inr None, Inr (Some [32])] None [Inr [32, 65, 10], Inr [66, 32]])
         [37] 300 = Inr [0, 1]
   \<and> map (image_to_string (fake_backend [Inr None, Inr (Some [32])] None [Inr [32, 65, 10], Inr [66, 32]]))
         [0, 1] = map Inr [[32, 65, 10], [66, 32]]
   \<and> extract_text (fake_backend [Inr None, Inr (Some [32])] None [Inr [32, 65, 10], Inr [66, 32]])
         ''application/pdf'' [37]
       = (Inr [65, 10, 10, 66], [PdfRead [37], Rasterize [37] 300, Ocr 0, Ocr 1])"
proof -
  let ?P = "[Inr None, Inr (Some [32])] :: page list"
  let ?E = "fake_backend ?P None [Inr [32, 65, 10], Inr [66, 32]]"
  have h1: "pdf_pages ?E [37] = Inr ?P" by (simp add: fake_backend_def)
  have h2: "read_pages ?P [] = Inr [10, 32, 10]" by simp
  have h3: "py_strip [10, 32, 10] = []" by (simp add: strip_eval)
  have h4: "import_pdf2image ?E = None" by (simp add: fake_backend_def)
  have h5: "convert_from_bytes ?E [37] 300 = Inr [0, 1]"
    by (simp add: fake_backend_def upt_rec)
  have h6: "map (image_to_string ?E) [0, 1] = map Inr [[32, 65, 10], [66, 32]]"
    by (simp add: fake_backend_def)
  have s: "py_strip (py_join [10] [[32, 65, 10], [66, 32]]) = [65, 10, 10, 66]"
    by (simp add: strip_eval)
  from image_only_pdf_ocr_per_page[OF h1 h2 h3 h4 h5 h6] h1 h2 h3 h4 h5 h6 show ?thesis
    by (simp only: s) simp
qed

text \<open>
  Claim C4. When the stripped text of the first phase is empty and the fallback fails (the
  rasterizer cannot be imported, the rasterizer raises, or the OCR engine raises on some
  page image), the extractor returns the empty string and raises nothing.
\<close>

theorem pdf_ocr_failure_gives_empty:
  assumes "pdf_pages env b = Inr pages"
    and "read_pages pages [] = Inr txt"
    and "py_strip txt = []"
    and "(\<exists>e. import_pdf2image env = Some e)
         \<or> (\<exists>e. convert_from_bytes env b 300 = Inl e)
         \<or> (\<exists>imgs. convert_from_bytes env b 300 = Inr imgs
                \<and> (\<exists>img\<in>set imgs. \<exists>e. image_to_string env img = Inl e))"
  shows "fst (extract_text env ''application/pdf'' b) = Inr []"
proof -
  have "\<exists>e. fst (ocr_fallback env b) = Inl e"
  proof -
    consider (imp) e where "import_pdf2image env = Some e"
      | (conv) e where "import_pdf2image env = None" "convert_from_bytes env b 300 = Inl e"
      | (ocr) imgs where "import_pdf2image env = None" "convert_from_bytes env b 300 = Inr imgs"
          "\<exists>img\<in>set imgs. \<exists>e. image_to_string env img = Inl e"
      using assms(4) by (cases "import_pdf2image env") auto
    then show ?thesis
    proof cases
      case imp
      then show ?thesis by (simp add: ocr_fallback_def)
    next
      case conv
      then show ?thesis by (simp add: ocr_fallback_def)
    next
      case ocr
      from ocr_images_fail_ex[OF ocr(3), of "[]"] obtain e where
        "fst (ocr_images env imgs []) = Inl e" by auto
      with ocr(1,2) show ?thesis
        by (cases "ocr_images env imgs []") (simp add: ocr_fallback_def)
    qed
  qed
  then obtain e where "fst (ocr_fallback env b) = Inl e" by auto
  then show ?thesis using assms(1-3)
    by (cases "ocr_fallback env b")
       (simp add: extract_text_def image_types_def extract_text_from_pdf_def)
qed

theorem pdf_ocr_failure_gives_empty_witness:
  "pdf_pages (fake_backend [Inr None] (Some (Exc ''ModuleNotFoundError'')) []) [37] = Inr [Inr None]
   \<and> read_pages [Inr None] [] = Inr [10]
   \<and> py_strip [10] = []
   \<and> import_pdf2image (fake_backend [Inr None] (Some (Exc ''ModuleNotFoundError'')) [])
       = Some (Exc ''ModuleNotFoundError'')
   \<and> fst (extract_text (fake_backend [Inr None] (Some (Exc ''ModuleNotFoundError'')) [])
         ''application/pdf'' [37]) = Inr []"
proof -
  let ?E = "fake_backend [Inr None] (Some (Exc ''ModuleNotFoundError'')) []"
  have h1: "pdf_pages ?E [37] = Inr [Inr None]" by (simp add: fake_backend_def)
  have h2: "read_pages [Inr None] [] = Inr [10]" by simp
  have h3: "py_strip [10] = []" by (simp add: strip_eval)
  have h4: "import_pdf2image ?E = Some (Exc ''ModuleNotFoundError'')"
    by (simp add: fake_backend_def)
  then have h5: "(\<exists>e. import_pdf2image ?E = Some e)
         \<or> (\<exists>e. convert_from_bytes ?E [37] 300 = Inl e)
         \<or> (\<exists>imgs. convert_from_bytes ?E [37] 300 = Inr imgs
                \<and> (\<exists>img\<in>set imgs. \<exists>e. image_to_string ?E img = Inl e))" by simp
  from pdf_ocr_failure_gives_empty[OF h1 h2 h3 h5] h1 h2 h3 h4 show ?thesis by simp
qed

text \<open>
  Claim C10. When the OCR engine raises on a page image after it succeeded on the images
  before it, the extractor returns the empty string: the texts of the earlier pages are
  discarded, and the later pages are not read.
\<close>

theorem pdf_ocr_all_or_nothing:
  assumes "pdf_pages env b = Inr pages"
    and "read_pages pages [] = Inr txt"
    and "py_strip txt = []"
    and "import_pdf2image env = None"
    and "convert_from_bytes env b 300 = Inr (pre @ img # post)"
    and "map (image_to_string env) pre = map Inr outs"
    and "image_to_string env img = Inl e"
  shows "extract_text env ''application/pdf'' b =
           (Inr [], PdfRead b # Rasterize b 300 # map Ocr pre @ [Ocr img])"
  using assms ocr_images_fail[of env pre outs img e post "[]"]
  by (simp add: extract_text_def image_types_def extract_text_from_pdf_def ocr_fallback_def)

theorem pdf_ocr_all_or_nothing_witness:
  "pdf_pages (fake_backend [Inr None, Inr None, Inr None] None
                [Inr [65], Inl (Exc ''TesseractError''), Inr [67]]) [37]
     = Inr [Inr None, Inr None, Inr None]
   \<and> read_pages [Inr None, Inr None, Inr None] [] = Inr [10, 10, 10]
   \<and> py_strip [10, 10, 10] = []
   \<and> import_pdf2image (fake_backend [Inr None, Inr None, Inr None] None
                [Inr [65], Inl (Exc ''TesseractError''), Inr [67]]) = None
   \<and> convert_from_bytes (fake_backend [Inr None, Inr None, Inr None] None
                [Inr [65], Inl (Exc ''TesseractError''), Inr [67]]) [37] 300 = Inr ([0] @ 1 # [2])
   \<and> map (image_to_string (fake_backend [Inr None, Inr None, Inr None] None
                [Inr [65], Inl (Exc ''TesseractError''), Inr [67]])) [0] = map Inr [[65]]
   \<and> image_to_string (fake_backend [Inr None, Inr None, Inr None] None
                [Inr [65], Inl (Exc ''TesseractError''), Inr [67]]) 1 = Inl (Exc ''TesseractError'')
   \<and> extract_text (fake_backend [Inr None, Inr None, Inr None] None
                [Inr [65], Inl (Exc ''TesseractError''), Inr [67]]) ''application/pdf'' [37]
       = (Inr [], [PdfRead [37], Rasterize [37] 300, Ocr 0, Ocr 1])"
proof -
  let ?P = "[Inr None, Inr None, Inr None] :: page list"
  let ?E = "fake_backend ?P None [Inr [65], Inl (Exc ''TesseractError''), Inr [67]]"
  have h1: "pdf_pages ?E [37] = Inr ?P" by (simp add: fake_backend_def)
  have h2: "read_pages ?P [] = Inr [10, 10, 10]" by simp
  have h3: "py_strip [10, 10, 10] = []" by (simp add: strip_eval)
  have h4: "import_pdf2image ?E = None" by (simp add: fake_backend_def)
  have h5: "convert_from_bytes ?E [37] 300 = Inr ([0] @ 1 # [2])"
    by (simp add: fake_backend_def upt_rec)
  have h6: "map (image_to_string ?E) [0] = map Inr [[65]]" by (simp add: fake_backend_def)
  have h7: "image_to_string ?E 1 = Inl (Exc ''TesseractError'')" by (simp add: fake_backend_def)
  from pdf_ocr_all_or_nothing[OF h1 h2 h3 h4 h5 h6 h7] h1 h2 h3 h4 h5 h6 h7 show ?thesis
    by simp
qed




text \<open>
  Claim C6. For a declared type that is neither an image type nor PDF the extractor
  attempts OCR on the payload as an image, once. If the decoder or the OCR engine raises,
  and only then, the result is the failure \<open>Unsupported\<close> with the declared type;
  otherwise the OCR output is the extracted text.
\<close>

theorem unknown_type_last_resort:
  assumes "ct \<notin> set image_types" and "ct \<noteq> ''application/pdf''"
  shows "extract_text env ct b =
           (case image_open env b of
              Inl e \<Rightarrow> (Inl (Unsupported ct), [ImageOpen b])
            | Inr img \<Rightarrow>
                (case image_to_string env img of
                   Inl e \<Rightarrow> (Inl (Unsupported ct), [ImageOpen b, Ocr img])
                 | Inr t \<Rightarrow> (Inr t, [ImageOpen b, Ocr img])))"
  using assms by (simp add: extract_text_def ocr_image_bytes_def split: sum.splits)

theorem unknown_type_last_resort_witness:
  "''text/plain'' \<notin> set image_types \<and> ''text/plain'' \<noteq> ''application/pdf''
   \<and> extract_text (fake_backend [] None [Inr [72, 105]]) ''text/plain'' []
       = (Inl (Unsupported ''text/plain''), [ImageOpen []])
   \<and> extract_text (fake_backend [] None [Inr [72, 105]]) ''text/plain'' [137, 80, 78, 71]
       = (Inr [72, 105], [ImageOpen [137, 80, 78, 71], Ocr 0])"
proof -
  have h1: "''text/plain'' \<notin> set image_types" by (simp add: image_types_def)
  have h2: "''text/plain'' \<noteq> ''application/pdf''" by simp
  from unknown_type_last_resort[OF h1 h2, of "fake_backend [] None [Inr [72, 105]]" "[]"]
    unknown_type_last_resort[OF h1 h2, of "fake_backend [] None [Inr [72, 105]]" "[137, 80, 78, 71]"]
    h1 h2 show ?thesis by (simp add: fake_backend_def)
qed


section \<open>Properties of the field extractor\<close>

subsection \<open>Evaluating a search\<close>

lemma rep_loop_numeral:
  "rep_loop body lo hi (numeral k) st =
     (if 0 < lo then concat (map (rep_loop body (lo - 1) (dec hi) (pred_numeral k)) (body st))
      else if hi = Some 0 then [st]
      else concat (map (\<lambda>st'. if pos st' \<le> pos st then [st']
                                else rep_loop body 0 (dec hi) (pred_numeral k) st') (body st)) @ [st])"
  using rep_loop.simps(2)[of body lo hi "pred_numeral k" st]
  by (simp only: numeral_eq_Suc[symmetric])

lemmas regex_eval = ustr_def lits_def sre_lower_def fixes_of_def lit_eq_def cls_mem_def
  at_boundary_def match_at_def re_search_def close_group_def uni_digit_def uni_space_def
  uni_word_def digit_ranges_def space_ranges_def word_ranges_def invoice_re_def amount_re_def
  amount_marker_def amount_number_def ascii_digit_def email_re_def date_re_def date_sep_def
  rep_loop_numeral

lemmas field_eval = group0_def group_def slice_def py_strip_def uni_space_def space_ranges_def
  ustr_def

subsection \<open>The example of the specification\<close>

lemma example_invoice_search:
  "re_search invoice_re True example_text =
     Some \<lparr>m_start = 0, m_end = 24, m_groups = [(2, 12, 24), (1, 0, 12)]\<rparr>"
  by (simp add: example_text_def regex_eval)

lemma example_amount_search:
  "re_search amount_re False example_text =
     Some \<lparr>m_start = 16, m_end = 19, m_groups = [(1, 16, 19)]\<rparr>"
  by (simp add: example_text_def regex_eval)

lemma example_email_search:
  "re_search email_re False example_text = Some \<lparr>m_start = 34, m_end = 53, m_groups = []\<rparr>"
  by (simp add: example_text_def regex_eval)

lemma example_date_search:
  "re_search date_re False example_text =
     Some \<lparr>m_start = 69, m_end = 79, m_groups = [(1, 69, 79)]\<rparr>"
  by (simp add: example_text_def regex_eval)

lemmas example_searches =
  example_invoice_search example_amount_search example_email_search example_date_search

text \<open>
  Claim C1, as the code has it. On the example text the extractor returns the invoice
  number \<^verbatim>\<open>INV-2023-045\<close>, the email \<^verbatim>\<open>billing@example.com\<close> and the date
  \<^verbatim>\<open>12/31/2023\<close>, and the amount \<^verbatim>\<open>202\<close>: the first match of the amount pattern is
  the first three digits of the year inside the invoice number.
\<close>

theorem example_fields:
  "extract_fields example_text =
     \<lparr>invoice_number = Some (ustr ''INV-2023-045''), amount = Some (ustr ''202''),
      email = Some (ustr ''billing@example.com''), date = Some (ustr ''12/31/2023'')\<rparr>"
  unfolding extract_fields_def Let_def example_searches
  by (simp add: example_text_def field_eval)

text \<open>
  Claim C1 as stated fails: the amount extracted from the example text does not contain
  \<^verbatim>\<open>1,250.00\<close>.
\<close>

theorem example_amount_not_1250:
  "amount (extract_fields example_text) = Some (ustr ''202'')
   \<and> \<not> sublist (ustr ''1,250.00'') (ustr ''202'')"
proof -
  have "amount (extract_fields example_text) = Some (ustr ''202'')"
    unfolding extract_fields_def Let_def example_searches
    by (simp add: example_text_def field_eval)
  moreover have "\<not> sublist (ustr ''1,250.00'') (ustr ''202'')"
    by (auto dest!: sublist_length_le simp: ustr_def)
  ultimately show ?thesis by simp
qed

subsection \<open>A label without a number\<close>







subsection \<open>Paths of the matcher\<close>

lemma rep_loop_zero_mem: "st \<in> set (rep_loop body 0 hi (Suc fuel) st)"
  by simp

lemma rep_loop_one_mem:
  "st1 \<in> set (body st) \<Longrightarrow> st1 \<in> set (rep_loop body (Suc 0) hi (Suc (Suc fuel)) st)"
  by (auto simp del: rep_loop.simps simp add: rep_loop.simps(2)[of body "Suc 0"] intro!: bexI[of _ st1] rep_loop_zero_mem)

lemma ms_Seq_mem:
  "st1 \<in> set (ms a ic st) \<Longrightarrow> st2 \<in> set (ms b ic st1) \<Longrightarrow> st2 \<in> set (ms (Seq a b) ic st)"
  by auto

lemma ms_Rep_zero_mem: "st \<in> set (ms (Rep 0 hi r) ic st)"
  by simp

lemma ms_Rep_one_mem: "st1 \<in> set (ms r ic st) \<Longrightarrow> st1 \<in> set (ms (Rep (Suc 0) hi r) ic st)"
  by (simp del: rep_loop.simps add: rep_loop_one_mem)

lemma ascii_digit_step:
  "48 \<le> d \<Longrightarrow> d \<le> 57 \<Longrightarrow>
     ms ascii_digit False (MState p pr (d # xs) g) = [MState (Suc p) (Some d) xs g]"
  by (simp add: ascii_digit_def cls_mem_def)

lemma amount_number_mem:
  assumes "48 \<le> d" and "d \<le> 57"
  shows "MState (Suc p) (Some d) xs g \<in> set (ms amount_number False (MState p pr (d # xs) g))"
proof -
  let ?st = "MState p pr (d # xs) g" and ?st1 = "MState (Suc p) (Some d) xs g"
  have "?st1 \<in> set (ms ascii_digit False ?st)"
    using assms by (simp add: ascii_digit_step)
  then have a: "?st1 \<in> set (ms (Rep 1 (Some 3) ascii_digit) False ?st)"
    using ms_Rep_one_mem[of ?st1 ascii_digit False ?st "Some 3"] by (simp only: One_nat_def)
  show ?thesis
    unfolding amount_number_def cat.simps
    by (rule ms_Seq_mem[OF a], rule ms_Seq_mem[OF ms_Rep_zero_mem], rule ms_Rep_zero_mem)
qed

lemma amount_re_matches_digit:
  assumes "48 \<le> d" and "d \<le> 57" and "\<not> behind False [CDigit] pr"
  shows "match_at amount_re False p pr (d # xs) \<noteq> None"
proof -
  let ?st = "MState p pr (d # xs) []"
  have nb: "?st \<in> set (ms (NotBehind [CDigit]) False ?st)" using assms(3) by simp
  have g: "close_group 1 p (MState (Suc p) (Some d) xs []) \<in> set (ms (Group 1 amount_number) False ?st)"
    using amount_number_mem[OF assms(1,2), of p xs "[]" pr] by simp
  have "close_group 1 p (MState (Suc p) (Some d) xs []) \<in> set (ms amount_re False ?st)"
    unfolding amount_re_def cat.simps
    by (rule ms_Seq_mem[OF nb], rule ms_Seq_mem[OF ms_Rep_zero_mem],
        rule ms_Seq_mem[OF ms_Rep_zero_mem], rule g)
  then show ?thesis by (auto simp: match_at_def split: list.splits)
qed

lemma search_from_finds:
  "match_at r ic (p + length pre) (if pre = [] then pr else Some (last pre)) s \<noteq> None \<Longrightarrow>
     search_from r ic p pr (pre @ s) \<noteq> None"
proof (induction pre arbitrary: p pr)
  case Nil
  then show ?case by (cases s) (auto split: option.splits)
next
  case (Cons a pre)
  have "search_from r ic (Suc p) (Some a) (pre @ s) \<noteq> None"
    by (rule Cons.IH) (use Cons.prems in \<open>auto split: if_splits\<close>)
  then show ?case by (auto split: option.splits)
qed

lemma amount_field:
  "amount (extract_fields txt) =
     map_option (\<lambda>m. py_strip (group0 txt m)) (re_search amount_re False txt)"
  by (simp add: extract_fields_def Let_def split: option.splits)

lemma reach_refl: "reach st st"
  by (simp add: reach_def)

lemma reach_trans: "reach a b \<Longrightarrow> reach b c \<Longrightarrow> reach a c"
  by (auto simp: reach_def)

lemma step_reach: "st' \<in> set (step P st) \<Longrightarrow> reach st st'"
  by (induction P st rule: step.induct) (auto simp: reach_def split: if_splits)

lemma rep_loop_reach:
  assumes body: "\<And>st st'. st' \<in> set (body st) \<Longrightarrow> reach st st'"
  shows "st' \<in> set (rep_loop body lo hi fuel st) \<Longrightarrow> reach st st'"
proof (induction fuel arbitrary: lo hi st st')
  case 0
  then show ?case by simp
next
  case (Suc fuel)
  show ?case
  proof (cases "0 < lo")
    case True
    with Suc.prems obtain st1 where "st1 \<in> set (body st)"
      "st' \<in> set (rep_loop body (lo - 1) (dec hi) fuel st1)" by auto
    then show ?thesis using body Suc.IH reach_trans by blast
  next
    case False
    show ?thesis
    proof (cases "hi = Some 0")
      case True
      with False Suc.prems show ?thesis by (simp add: reach_refl)
    next
      case hi: False
      from Suc.prems False hi consider "st' = st"
        | st1 where "st1 \<in> set (body st)" "pos st1 \<le> pos st" "st' = st1"
        | st1 where "st1 \<in> set (body st)" "st' \<in> set (rep_loop body 0 (dec hi) fuel st1)"
        by (auto split: if_splits)
      then show ?thesis
      proof cases
        case 1
        then show ?thesis by (simp add: reach_refl)
      next
        case 2
        then show ?thesis using body by simp
      next
        case 3
        then show ?thesis using body Suc.IH reach_trans by blast
      qed
    qed
  qed
qed

lemma close_group_reach: "reach st st' \<Longrightarrow> reach st (close_group n k st')"
  by (simp add: reach_def close_group_def)

lemma ms_reach: "st' \<in> set (ms r ic st) \<Longrightarrow> reach st st'"
proof (induction r arbitrary: st st')
  case (Lit c)
  then show ?case by (simp add: step_reach)
next
  case (In cs)
  then show ?case by (simp add: step_reach)
next
  case (Seq a b)
  then show ?case using reach_trans by fastforce
next
  case (Alt a b)
  then show ?case by auto
next
  case (Rep lo hi r)
  from Rep.prems have "st' \<in> set (rep_loop (ms r ic) lo hi (lo + length (rest st) + 1) st)"
    by simp
  then show ?case using Rep.IH by (rule rep_loop_reach[rotated])
next
  case (Group n r)
  then show ?case by (auto simp: close_group_reach)
next
  case (NotBehind cs)
  then show ?case by (auto simp: reach_refl split: if_splits)
next
  case WordB
  then show ?case by (auto simp: reach_refl split: if_splits)
qed








text \<open>
  The fuel that \<open>ms\<close> gives a repetition is enough: with more fuel the loop returns the
  same states.
\<close>

lemma rep_loop_fuel:
  assumes body: "\<And>st st'. st' \<in> set (body st) \<Longrightarrow> reach st st'"
  shows "lo + length (rest st) < f1 \<Longrightarrow> lo + length (rest st) < f2 \<Longrightarrow>
           rep_loop body lo hi f1 st = rep_loop body lo hi f2 st"
proof (induction f1 arbitrary: f2 lo hi st)
  case 0
  then show ?case by simp
next
  case (Suc f1)
  from Suc.prems(2) obtain f2' where f2: "f2 = Suc f2'" by (cases f2) auto
  have len: "length (rest st1) \<le> length (rest st)" if "st1 \<in> set (body st)" for st1
    using body[OF that] by (auto simp: reach_def)
  have len': "length (rest st1) < length (rest st)"
    if "st1 \<in> set (body st)" "\<not> pos st1 \<le> pos st" for st1
    using body[OF that(1)] that(2) by (auto simp: reach_def)
  show ?case
  proof (cases "0 < lo")
    case True
    have "rep_loop body (lo - 1) (dec hi) f1 st1 = rep_loop body (lo - 1) (dec hi) f2' st1"
      if "st1 \<in> set (body st)" for st1
      using len[OF that] Suc.prems True f2 by (intro Suc.IH) auto
    then show ?thesis using True unfolding f2 by (simp cong: map_cong)
  next
    case False
    have "(if pos st1 \<le> pos st then [st1] else rep_loop body 0 (dec hi) f1 st1) =
          (if pos st1 \<le> pos st then [st1] else rep_loop body 0 (dec hi) f2' st1)"
      if "st1 \<in> set (body st)" for st1
    proof (cases "pos st1 \<le> pos st")
      case True
      then show ?thesis by simp
    next
      case f: False
      have "rep_loop body 0 (dec hi) f1 st1 = rep_loop body 0 (dec hi) f2' st1"
        using len'[OF that f] Suc.prems f2 by (intro Suc.IH) auto
      then show ?thesis by simp
    qed
    then show ?thesis using False unfolding f2 by (simp cong: map_cong)
  qed
qed

lemma ms_Rep_fuel:
  "lo + length (rest st) < fuel \<Longrightarrow> ms (Rep lo hi r) ic st = rep_loop (ms r ic) lo hi fuel st"
  using rep_loop_fuel[of "ms r ic" lo st "lo + length (rest st) + 1" fuel hi] ms_reach
  by simp

subsection \<open>The amount pattern\<close>






text \<open>
  Claim C8, as the code has it. When the text has an ASCII digit that is its first
  character or follows a character that \<^verbatim>\<open>\d\<close> does not match (no decimal digit of any
  script), the amount is set. This covers every text with an ASCII digit whose decimal
  digits are all ASCII.
\<close>

theorem amount_set_for_ascii_digit:
  assumes "txt = pre @ d # post"
    and "48 \<le> d" and "d \<le> 57"
    and "pre = [] \<or> \<not> uni_digit (last pre)"
  shows "amount (extract_fields txt) \<noteq> None"
proof -
  have "\<not> behind False [CDigit] (if pre = [] then None else Some (last pre))"
    using assms(4) by (auto simp: cls_mem_def)
  then have "match_at amount_re False (0 + length pre) (if pre = [] then None else Some (last pre))
               (d # post) \<noteq> None"
    by (rule amount_re_matches_digit[OF assms(2,3)])
  then have "re_search amount_re False txt \<noteq> None"
    unfolding re_search_def assms(1) by (rule search_from_finds)
  then show ?thesis
    by (auto simp: extract_fields_def Let_def split: option.splits)
qed

theorem amount_set_for_ascii_digit_witness:
  "[1635, 32, 53] = [1635, 32] @ 53 # []
   \<and> (48::nat) \<le> 53 \<and> (53::nat) \<le> 57
   \<and> \<not> uni_digit (last [1635, 32])
   \<and> amount (extract_fields [1635, 32, 53]) \<noteq> None"
proof -
  have h: "[1635, 32] = [] \<or> \<not> uni_digit (last [1635, 32])"
    by (simp add: uni_digit_def digit_ranges_def)
  from amount_set_for_ascii_digit[of "[1635, 32, 53]" "[1635, 32]" 53 "[]", OF _ _ _ h] h
  show ?thesis by simp
qed

text \<open>
  Claim C8 as stated fails: in the text of the two characters U+0663 (Arabic-Indic digit
  three) and \<^verbatim>\<open>5\<close> the only ASCII digit follows a decimal digit, the lookbehind rejects
  it, and the amount is not set.
\<close>

lemma arabic_amount_search: "re_search amount_re False [1635, 53] = None"
  by (simp add: regex_eval)

theorem ascii_digit_without_amount:
  "(53::nat) \<in> set [1635, 53] \<and> (48::nat) \<le> 53 \<and> (53::nat) \<le> 57
   \<and> amount (extract_fields [1635, 53]) = None"
  by (simp add: arabic_amount_search amount_field)

end
